theory Spec2Isabelle
  imports Main
begin

section \<open>Syntax trees\<close>

text \<open>
  The kinds of \<^verbatim>\<open>ts.SyntaxKind\<close> that the two source files test for; every other
  kind is \<open>OtherKind\<close>.
\<close>

datatype syntaxKind =
    Identifier
  | QualifiedName
  | PropertyAccessExpression
  | CallExpression
  | NewExpression
  | ObjectBindingPattern
  | ArrowFunction
  | FunctionExpression
  | FunctionDeclaration
  | Block
  | OtherKind nat

text \<open>
  \<^verbatim>\<open>ts.NodeFlags\<close>, \<^verbatim>\<open>ts.SymbolFlags\<close> and \<^verbatim>\<open>ts.TypeFlags\<close> are bit
  masks whose numeric values belong to the TypeScript library. A mask is modelled as the
  set of its bits, so that \<^verbatim>\<open>(flags & F) !== 0\<close> reads \<open>flags \<inter> F \<noteq> {}\<close>.
\<close>

datatype nodeFlag = Const | Abstract | Public | Private | Protected | OtherNodeFlag nat

datatype symbolFlag =
  Alias | Class | Function | FunctionScopedVariable | BlockScopedVariable | OtherSymbolFlag nat

datatype typeFlag = TypeParameter | OtherTypeFlag nat

definition Variable :: "symbolFlag set" where
  "Variable = {FunctionScopedVariable, BlockScopedVariable}"

text \<open>
  Every node carries an identity (\<open>identId\<close>, \<open>accessId\<close>, ...): JavaScript compares
  nodes by reference, and diagnostics are attached to a node.
\<close>

record tsIdentifier =
  identId :: nat
  identText :: string

datatype node =
    Ident tsIdentifier
  | Access propertyAccessExpression
  | Call callExpression
  | Param parameterDeclaration
  | Other nat syntaxKind
and propertyAccessExpression =
  PropertyAccess (accessId: nat) (accessExpression: node) (accessName: tsIdentifier)
and callExpression =
  CallExpr (callId: nat) (callKind: syntaxKind) (callee: node) (arguments: "node list")
and parameterDeclaration =
  Parameter (paramId: nat) (paramName: node) (initializer: "node option")
    (questionToken: "node option")

fun nodeId :: "node \<Rightarrow> nat" where
  "nodeId (Ident i) = identId i"
| "nodeId (Access pa) = accessId pa"
| "nodeId (Call c) = callId c"
| "nodeId (Param p) = paramId p"
| "nodeId (Other i k) = i"

fun kind :: "node \<Rightarrow> syntaxKind" where
  "kind (Ident i) = Identifier"
| "kind (Access pa) = PropertyAccessExpression"
| "kind (Call c) = callKind c"
| "kind (Param p) = OtherKind 0"
| "kind (Other i k) = k"



record variableDeclaration =
  declarationId :: nat
  declarationName :: node
  declaredType :: "node option"
  declarationInitializer :: "node option"

record variableDeclarationList =
  listFlags :: "nodeFlag set"
  listDeclarations :: "variableDeclaration list"

record enumMember =
  memberId :: nat
  memberName :: node
  memberInitializer :: "node option"

section \<open>The type checker\<close>

record tsDeclaration =
  sourceFileName :: string
  parentKind :: "syntaxKind option"

record symbol =
  symbolId :: nat
  symbolFlags :: "symbolFlag set"
  symbolName :: string
  valueDeclaration :: "tsDeclaration option"
  declarations :: "tsDeclaration list option"

record tsType =
  typeFlags :: "typeFlag set"
  typeSymbol :: "symbol option"

text \<open>
  The part of \<^verbatim>\<open>ts.TypeChecker\<close> that the converter calls. The checker is an input
  of the program: nothing is assumed about what it answers.
\<close>

record typeChecker =
  getSymbolAtLocation :: "node \<Rightarrow> symbol option"
  getAliasedSymbol :: "symbol \<Rightarrow> symbol"
  getFullyQualifiedName :: "symbol \<Rightarrow> string"
  getTypeAtLocation :: "node \<Rightarrow> tsType option"

section \<open>State, results and sequencing\<close>

text \<open>
  The mutable state of a run: the text emitted so far, the diagnostics reported so far
  (each with the identity of its node), the converter's \<^verbatim>\<open>genericMethodDeclDepth\<close>,
  and the nodes for which the checker's \<^verbatim>\<open>getSymbolAtLocation\<close> was called, in order.
\<close>

record tstate =
  emitted :: "string list"
  errors :: "(nat \<times> string) list"
  genericMethodDeclDepth :: int
  symbolQueries :: "nat list"

text \<open>
  A call returns a value, throws, or does not return at all (the alias loop of
  \<^verbatim>\<open>getFileAndName\<close> has no bound).
\<close>

datatype 'a outcome = Returns 'a | Throws string | Diverges

type_synonym 'a action = "tstate \<Rightarrow> 'a outcome \<times> tstate"

datatype jsValue = JUndefined | JNull | JBool bool

fun truthy :: "jsValue \<Rightarrow> bool" where
  "truthy JUndefined = False"
| "truthy JNull = False"
| "truthy (JBool b) = b"

definition returning :: "'a \<Rightarrow> 'a action" where
  "returning v = (\<lambda>s. (Returns v, s))"

definition throw :: "string \<Rightarrow> 'a action" where
  "throw e = (\<lambda>s. (Throws e, s))"

definition andThen :: "'a action \<Rightarrow> ('a \<Rightarrow> 'b action) \<Rightarrow> 'b action" where
  "andThen m f = (\<lambda>s. case m s of
       (Returns v, s') \<Rightarrow> f v s'
     | (Throws e, s') \<Rightarrow> (Throws e, s')
     | (Diverges, s') \<Rightarrow> (Diverges, s'))"

fun seq :: "unit action list \<Rightarrow> unit action" where
  "seq [] = returning ()"
| "seq (m # ms) = andThen m (\<lambda>_. seq ms)"

definition ifThen :: "bool \<Rightarrow> unit action \<Rightarrow> unit action" where
  "ifThen c m = (if c then m else returning ())"


section \<open>The transpiler base\<close>

text \<open>
  \<^verbatim>\<open>base.TranspilerBase\<close> (base.ts) is not among the sources. Its tree walk
  (\<^verbatim>\<open>visit\<close>, \<^verbatim>\<open>visitList\<close>) and \<^verbatim>\<open>getRelativeFileName\<close> are parameters: they may
  emit, report, throw or change any part of the state.
\<close>

record transpilerBase =
  visit :: "node \<Rightarrow> unit action"
  visitList :: "node list \<Rightarrow> unit action"
  getRelativeFileName :: "string \<Rightarrow> string"

text \<open>
  Modelled from the spec: \<^verbatim>\<open>emit\<close> is defined in base.ts, which is not among the
  sources. The spec has a rule "emit replacement text"; the text is appended to the output.
\<close>

definition emit :: "string \<Rightarrow> unit action" where
  "emit str = (\<lambda>s. (Returns (), s\<lparr>emitted := emitted s @ [str]\<rparr>))"

text \<open>
  Modelled from the spec: \<^verbatim>\<open>reportError\<close> is defined in base.ts, which is not among
  the sources. By the spec an error is "reported at the offending node", errors "are
  accumulated and traversal continues".
\<close>

definition reportError :: "nat \<Rightarrow> string \<Rightarrow> unit action" where
  "reportError n message = (\<lambda>s. (Returns (), s\<lparr>errors := errors s @ [(n, message)]\<rparr>))"

text \<open>
  Modelled from the spec: \<^verbatim>\<open>base.ident\<close> is defined in base.ts, which is not among
  the sources. The spec calls its result on an tsIdentifier the "textual name", "the
  tsIdentifier's own text"; a node that has no such name gives \<^verbatim>\<open>null\<close>. The source
  applies it to identifiers and to the callee of a call.
\<close>

fun ident :: "node \<Rightarrow> string option" where
  "ident (Ident i) = Some (identText i)"
| "ident n = None"

text \<open>
  Modelled from the spec: \<^verbatim>\<open>hasFlag\<close> is defined in base.ts, which is not among the
  sources. The spec speaks of a "const-flagged" declarator: the flag is one of the node's.
\<close>

definition hasFlag :: "nodeFlag set \<Rightarrow> nodeFlag \<Rightarrow> bool" where
  "hasFlag flags flag = (flag \<in> flags)"

section \<open>The facade converter\<close>

type_synonym 'a table = "(string \<times> (string \<times> 'a) list) list"

type_synonym callHandler = "callExpression \<Rightarrow> node option \<Rightarrow> jsValue action"

type_synonym propertyHandler = "propertyAccessExpression \<Rightarrow> jsValue action"

text \<open>
  The fields of \<^verbatim>\<open>FacadeConverter\<close> that do not change during a traversal. The two
  candidate objects are used as sets (\<^verbatim>\<open>candidates[propName] = true\<close>,
  \<^verbatim>\<open>hasOwnProperty\<close>). \<open>stripTypingsRoot\<close> is
  \<^verbatim>\<open>s.replace(this.typingsRootRegex, '')\<close>: the expression is compiled from the
  constructor's \<^verbatim>\<open>typingsRoot\<close>, and what it matches is a parameter here. The rules of
  the tables are closures that call the tree walk; a table is a parameter, an association
  list in the order of \<^verbatim>\<open>Object.keys\<close>, and a lookup \<^verbatim>\<open>m[key]\<close> finds the keys that
  the table has itself.
\<close>

record facadeConverter =
  tc :: "typeChecker option"
  candidateProperties :: "string \<rightharpoonup> bool"
  candidateTypes :: "string \<rightharpoonup> bool"
  stripTypingsRoot :: "string \<Rightarrow> string"
  callHandlers :: "callHandler table"
  propertyHandlers :: "propertyHandler table"
  TS_TO_DART_TYPENAMES :: "string table"
  callHandlerReplaceNew :: "bool table"

text \<open>\<^verbatim>\<open>propName.substring(propName.lastIndexOf('.') + 1)\<close>\<close>

definition lastSegment :: "string \<Rightarrow> string" where
  "lastSegment propName = rev (takeWhile (\<lambda>c. c \<noteq> CHR ''.'') (rev propName))"

definition extractPropertyNames :: "'a table \<Rightarrow> (string \<rightharpoonup> bool) \<Rightarrow> (string \<rightharpoonup> bool)" where
  "extractPropertyNames m candidates =
     fold (\<lambda>fileName cs.
        case map_of m fileName of
          None \<Rightarrow> cs
        | Some file \<Rightarrow>
            fold (\<lambda>propName cs'. cs'(propName \<mapsto> True)) (map lastSegment (map fst file)) cs)
       (map fst m) candidates"

text \<open>
  The constructor. The four tables are field initialisers of the class; they and the
  effect of the typings root are arguments here.
\<close>

definition FacadeConverter ::
  "callHandler table \<Rightarrow> propertyHandler table \<Rightarrow> string table \<Rightarrow> bool table \<Rightarrow>
     (string \<Rightarrow> string) \<Rightarrow> facadeConverter" where
  "FacadeConverter calls props typeNames replaceNew typingsRoot =
     \<lparr> tc = None,
       candidateProperties = extractPropertyNames props (extractPropertyNames calls Map.empty),
       candidateTypes = extractPropertyNames typeNames Map.empty,
       stripTypingsRoot = typingsRoot,
       callHandlers = calls,
       propertyHandlers = props,
       TS_TO_DART_TYPENAMES = typeNames,
       callHandlerReplaceNew = replaceNew \<rparr>"

definition setTypeChecker :: "facadeConverter \<Rightarrow> typeChecker \<Rightarrow> facadeConverter" where
  "setTypeChecker fc t = fc\<lparr>tc := Some t\<rparr>"

text \<open>
  \<^verbatim>\<open>this.tc.getSymbolAtLocation(n)\<close> and \<^verbatim>\<open>this.tc.getTypeAtLocation(n)\<close>: a
  TypeError when no checker is set; a symbol query is recorded in the state.
\<close>

definition symbolAtLocation :: "facadeConverter \<Rightarrow> node \<Rightarrow> symbol option action" where
  "symbolAtLocation fc n = (\<lambda>s. case tc fc of
       None \<Rightarrow> (Throws ''TypeError'', s)
     | Some t \<Rightarrow>
         (Returns (getSymbolAtLocation t n), s\<lparr>symbolQueries := symbolQueries s @ [nodeId n]\<rparr>))"

definition typeAtLocation :: "facadeConverter \<Rightarrow> node \<Rightarrow> tsType option action" where
  "typeAtLocation fc n = (case tc fc of
       None \<Rightarrow> throw ''TypeError''
     | Some t \<Rightarrow> returning (getTypeAtLocation t n))"

definition reportMissingType :: "nat \<Rightarrow> string \<Rightarrow> unit action" where
  "reportMissingType n ident' =
     reportError n (''Untyped property access to '' @ [CHR 0x22] @ ident' @ [CHR 0x22]
       @ '' which could be '' @ ''a special ts2dart builtin. ''
       @ ''Please add type declarations to disambiguate.'')"

text \<open>
  \<^verbatim>\<open>while (symbol.flags & ts.SymbolFlags.Alias) symbol = this.tc.getAliasedSymbol(symbol)\<close>.
  The loop has no bound: \<open>None\<close> is the loop that never ends.
\<close>

partial_function (option) followAliases ::
  "typeChecker option \<Rightarrow> symbol \<Rightarrow> symbol outcome option" where
  "followAliases checker symbol =
     (if Alias \<in> symbolFlags symbol
      then (case checker of
              None \<Rightarrow> Some (Throws ''TypeError'')
            | Some t \<Rightarrow> followAliases checker (getAliasedSymbol t symbol))
      else Some (Returns symbol))"

definition resolveAliases :: "facadeConverter \<Rightarrow> symbol \<Rightarrow> symbol action" where
  "resolveAliases fc symbol = (\<lambda>s. case followAliases (tc fc) symbol of
       None \<Rightarrow> (Diverges, s)
     | Some r \<Rightarrow> (r, s))"

text \<open>\<^verbatim>\<open>.replace(/(\.d)?\.ts$/, '')\<close>\<close>

definition stripTsSuffix :: "string \<Rightarrow> string" where
  "stripTsSuffix f =
     (let n = length f in
      if 5 \<le> n \<and> drop (n - 5) f = ''.d.ts'' then take (n - 5) f
      else if 3 \<le> n \<and> drop (n - 3) f = ''.ts'' then take (n - 3) f
      else f)"

text \<open>\<^verbatim>\<open>FACADE_NODE_MODULES_PREFIX = /^(\.\.\/)*node_modules\//\<close>\<close>

fun dropParentSteps :: "string \<Rightarrow> string" where
  "dropParentSteps (a # b # c # rest) =
     (if [a, b, c] = ''../'' then dropParentSteps rest else a # b # c # rest)"
| "dropParentSteps f = f"

definition stripNodeModulesPrefix :: "string \<Rightarrow> string" where
  "stripNodeModulesPrefix f =
     (let rest = dropParentSteps f in
      if take 13 rest = ''node_modules/'' then drop 13 rest else f)"

record fileAndName =
  fileName :: string
  qname :: string

definition getFileAndName ::
  "transpilerBase \<Rightarrow> facadeConverter \<Rightarrow> nat \<Rightarrow> symbol \<Rightarrow> fileAndName option action" where
  "getFileAndName b fc n originalSymbol =
     andThen (resolveAliases fc originalSymbol) (\<lambda>symbol.
       let noDeclarations =
             andThen (reportError n (''no declarations for symbol '' @ symbolName originalSymbol))
               (\<lambda>_. returning None);
           located = (\<lambda>decl.
             let canonicalFileName =
                   stripTypingsRoot fc (stripNodeModulesPrefix (stripTsSuffix
                     (getRelativeFileName b (sourceFileName decl))))
             in case tc fc of
                  None \<Rightarrow> throw ''TypeError''
                | Some t \<Rightarrow>
                    let qname = getFullyQualifiedName t symbol;
                        qname = (if symbolFlags symbol \<inter> ({Class, Function} \<union> Variable) \<noteq> {}
                                 then symbolName symbol else qname)
                    in returning (Some \<lparr>fileName = canonicalFileName, qname = qname\<rparr>))
       in case valueDeclaration symbol of
            Some decl \<Rightarrow> located decl
          | None \<Rightarrow>
              (case declarations symbol of
                 None \<Rightarrow> noDeclarations
               | Some [] \<Rightarrow> noDeclarations
               | Some (decl # ds) \<Rightarrow> located decl))"

text \<open>
  What \<^verbatim>\<open>getHandler\<close> returns: \<^verbatim>\<open>null\<close>, \<^verbatim>\<open>undefined\<close> (the file's rules have no
  such name) or a rule.
\<close>

datatype 'a slot = NullSlot | UndefinedSlot | Handler 'a

definition getHandler ::
  "transpilerBase \<Rightarrow> facadeConverter \<Rightarrow> nat \<Rightarrow> symbol \<Rightarrow> 'a table \<Rightarrow> 'a slot action" where
  "getHandler b fc n symbol m =
     andThen (getFileAndName b fc n symbol) (\<lambda>loc.
       case loc of
         None \<Rightarrow> returning NullSlot
       | Some l \<Rightarrow>
           (case map_of m (fileName l) of
              None \<Rightarrow> returning NullSlot
            | Some fileSubs \<Rightarrow>
                (case map_of fileSubs (qname l) of
                   None \<Rightarrow> returning UndefinedSlot
                 | Some h \<Rightarrow> returning (Handler h))))"

text \<open>
  \<^verbatim>\<open>getCallInformation\<close> returns \<^verbatim>\<open>{context, symbol}\<close>; an absent or \<^verbatim>\<open>null\<close>
  context is \<open>None\<close>. A \<^verbatim>\<open>null\<close> name used as a property key or in a message
  reads \<^verbatim>\<open>"null"\<close>.
\<close>

definition jsString :: "string option \<Rightarrow> string" where
  "jsString k = (case k of None \<Rightarrow> ''null'' | Some str \<Rightarrow> str)"

definition getCallInformation ::
  "facadeConverter \<Rightarrow> callExpression \<Rightarrow> (node option \<times> symbol option) action" where
  "getCallInformation fc c =
     (let expr = callee c in
      case expr of
        Ident i \<Rightarrow>
          (let ident' = jsString (ident expr) in
           if ident' \<notin> dom (candidateProperties fc) then returning (None, None)
           else andThen (symbolAtLocation fc expr) (\<lambda>symbol.
             case symbol of
               None \<Rightarrow> andThen (reportMissingType (callId c) ident') (\<lambda>_. returning (None, None))
             | Some resolved \<Rightarrow> returning (None, Some resolved)))
      | Access pa \<Rightarrow>
          (let ident' = jsString (ident (Ident (accessName pa))) in
           if ident' \<notin> dom (candidateProperties fc) then returning (None, None)
           else andThen (symbolAtLocation fc (Access pa)) (\<lambda>symbol.
             case symbol of
               None \<Rightarrow> returning (None, None)
             | Some resolved \<Rightarrow> returning (Some (accessExpression pa), Some resolved)))
      | _ \<Rightarrow> returning (None, None))"

definition maybeHandleCall ::
  "transpilerBase \<Rightarrow> facadeConverter \<Rightarrow> callExpression \<Rightarrow> jsValue action" where
  "maybeHandleCall b fc c =
     (if tc fc = None then returning (JBool False)
      else andThen (getCallInformation fc c) (\<lambda>(context, symbol).
        case symbol of
          None \<Rightarrow> returning (JBool False)
        | Some resolved \<Rightarrow>
            andThen (getHandler b fc (callId c) resolved (callHandlers fc)) (\<lambda>handler.
              case handler of
                NullSlot \<Rightarrow> returning JNull
              | UndefinedSlot \<Rightarrow> returning JUndefined
              | Handler h \<Rightarrow> andThen (h c context) (\<lambda>r. returning (JBool (\<not> truthy r))))))"

definition handlePropertyAccess ::
  "transpilerBase \<Rightarrow> facadeConverter \<Rightarrow> propertyAccessExpression \<Rightarrow> jsValue action" where
  "handlePropertyAccess b fc pa =
     (if tc fc = None then returning JUndefined
      else
        let ident' = identText (accessName pa) in
        if ident' \<notin> dom (candidateProperties fc) then returning (JBool False)
        else andThen (symbolAtLocation fc (Ident (accessName pa))) (\<lambda>symbol.
          case symbol of
            None \<Rightarrow> andThen (reportMissingType (accessId pa) ident') (\<lambda>_. returning (JBool False))
          | Some resolved \<Rightarrow>
              andThen (getHandler b fc (accessId pa) resolved (propertyHandlers fc)) (\<lambda>handler.
                case handler of
                  NullSlot \<Rightarrow> returning JNull
                | UndefinedSlot \<Rightarrow> returning JUndefined
                | Handler h \<Rightarrow> andThen (h pa) (\<lambda>r. returning (JBool (\<not> truthy r))))))"

definition shouldEmitNew ::
  "transpilerBase \<Rightarrow> facadeConverter \<Rightarrow> callExpression \<Rightarrow> bool action" where
  "shouldEmitNew b fc c =
     (if tc fc = None then returning True
      else andThen (getCallInformation fc c) (\<lambda>ci.
        case snd ci of
          None \<Rightarrow> returning True
        | Some symbol \<Rightarrow>
            andThen (getFileAndName b fc (callId c) symbol) (\<lambda>loc.
              case loc of
                None \<Rightarrow> returning True
              | Some l \<Rightarrow>
                  (case map_of (callHandlerReplaceNew fc) (fileName l) of
                     None \<Rightarrow> returning True
                   | Some fileSubs \<Rightarrow>
                       (case map_of fileSubs (qname l) of
                          None \<Rightarrow> returning True
                        | Some v \<Rightarrow> returning (\<not> v))))))"



text \<open>
  \<^verbatim>\<open>symbol.declarations.some(d => d.parent.kind === ts.SyntaxKind.FunctionDeclaration)\<close>:
  \<^verbatim>\<open>some\<close> stops at the first hit; a declaration without parent is a TypeError.
\<close>

fun declaredByFunction :: "tsDeclaration list \<Rightarrow> bool action" where
  "declaredByFunction [] = returning False"
| "declaredByFunction (d # ds) =
     (case parentKind d of
        None \<Rightarrow> throw ''TypeError''
      | Some k \<Rightarrow> if k = FunctionDeclaration then returning True else declaredByFunction ds)"

definition isGenericMethodTypeParameterName :: "facadeConverter \<Rightarrow> node \<Rightarrow> bool action" where
  "isGenericMethodTypeParameterName fc name' = (\<lambda>s.
     if genericMethodDeclDepth s = 0 \<or> tc fc = None then (Returns False, s)
     else andThen (typeAtLocation fc name') (\<lambda>t.
       case t of
         None \<Rightarrow> returning False
       | Some ty \<Rightarrow>
           if typeFlags ty \<inter> {TypeParameter} = {} then returning False
           else andThen (symbolAtLocation fc name') (\<lambda>symbol.
             if symbol \<noteq> typeSymbol ty then returning False
             else case symbol of
                    None \<Rightarrow> throw ''TypeError''
                  | Some resolved \<Rightarrow>
                      (case declarations resolved of
                         None \<Rightarrow> throw ''TypeError''
                       | Some ds \<Rightarrow> declaredByFunction ds))) s)"

definition visitTypeName :: "transpilerBase \<Rightarrow> facadeConverter \<Rightarrow> node \<Rightarrow> unit action" where
  "visitTypeName b fc typeName =
     (case typeName of
        Ident i \<Rightarrow>
          (let ident' = jsString (ident typeName) in
           andThen (isGenericMethodTypeParameterName fc typeName) (\<lambda>generic.
             if generic then seq [emit ''dynamic/*='', emit ident', emit ''*/'']
             else if ident' \<in> dom (candidateTypes fc) \<and> tc fc \<noteq> None
             then andThen (symbolAtLocation fc typeName) (\<lambda>symbol.
                    case symbol of
                      None \<Rightarrow> reportMissingType (nodeId typeName) ident'
                    | Some resolved \<Rightarrow>
                        andThen (getFileAndName b fc (nodeId typeName) resolved) (\<lambda>fileAndName.
                          case fileAndName of
                            None \<Rightarrow> emit ident'
                          | Some l \<Rightarrow>
                              (case map_of (TS_TO_DART_TYPENAMES fc) (fileName l) of
                                 None \<Rightarrow> emit ident'
                               | Some fileSubs \<Rightarrow>
                                   (case map_of fileSubs (qname l) of
                                      None \<Rightarrow> emit ident'
                                    | Some replacement \<Rightarrow> emit replacement))))
             else emit ident'))
      | _ \<Rightarrow> visit b typeName)"

definition isNamedType ::
  "transpilerBase \<Rightarrow> facadeConverter \<Rightarrow> node \<Rightarrow> string \<Rightarrow> string \<Rightarrow> bool action" where
  "isNamedType b fc n fileName' qname' =
     andThen (typeAtLocation fc n) (\<lambda>t.
       case t of
         None \<Rightarrow> throw ''TypeError''
       | Some ty \<Rightarrow>
           (case typeSymbol ty of
              None \<Rightarrow> returning False
            | Some symbol \<Rightarrow>
                andThen (getFileAndName b fc (nodeId n) symbol) (\<lambda>actual.
                  case actual of
                    None \<Rightarrow> throw ''TypeError''
                  | Some a \<Rightarrow>
                      if fileName' = ''lib'' \<and> \<not> (fileName a = ''lib'' \<or> fileName a = ''lib.es6'')
                      then returning False
                      else if fileName' \<noteq> fileName a then returning False
                      else returning (qname' = qname a))))"

text \<open>
  \<^verbatim>\<open>node && node.kind === ts.SyntaxKind.CallExpression &&
  base.ident(node.expression) === 'CONST_EXPR'\<close>, read as a condition.
\<close>

definition isConstCall :: "node option \<Rightarrow> bool" where
  "isConstCall n =
     (case n of
        Some (Call c) \<Rightarrow> callKind c = CallExpression \<and> ident (callee c) = Some ''CONST_EXPR''
      | _ \<Rightarrow> False)"

section \<open>The rule tables of the repository\<close>

text \<open>
  \<^verbatim>\<open>merge\<close> copies the own properties of its arguments in order; a key that is already
  there keeps its place and takes the later value.
\<close>

fun assign :: "string \<Rightarrow> 'a \<Rightarrow> (string \<times> 'a) list \<Rightarrow> (string \<times> 'a) list" where
  "assign key v [] = [(key, v)]"
| "assign key v ((key', v') # rest) =
     (if key = key' then (key, v) # rest else (key', v') # assign key v rest)"

definition merge :: "(string \<times> 'a) list list \<Rightarrow> (string \<times> 'a) list" where
  "merge args =
     fold (\<lambda>arg returnObject. fold (\<lambda>(key, v) ro. assign key v ro) arg returnObject) args []"

text \<open>
  The keys of the tables as the class initialises them. The bodies of the rules call the
  tree walk and are not modelled: \<open>impl\<close> gives the rule registered under a name.
\<close>

definition rules :: "(string \<Rightarrow> 'a) \<Rightarrow> string list \<Rightarrow> (string \<times> 'a) list" where
  "rules impl names = map (\<lambda>n. (n, impl n)) names"

definition stdlibTypeReplacements :: "(string \<times> string) list" where
  "stdlibTypeReplacements =
     [(''Date'', ''DateTime''), (''Array'', ''List''), (''XMLHttpRequest'', ''HttpRequest''),
      (''Uint8Array'', ''Uint8List''), (''ArrayBuffer'', ''ByteBuffer''), (''Promise'', ''Future''),
      (''Node'', ''dynamic''), (''Text'', ''dynamic''), (''Element'', ''dynamic''),
      (''Event'', ''dynamic''), (''HTMLElement'', ''dynamic''),
      (''HTMLAnchorElement'', ''dynamic''), (''HTMLStyleElement'', ''dynamic''),
      (''HTMLInputElement'', ''dynamic''), (''HTMLDocument'', ''dynamic''),
      (''History'', ''dynamic''), (''Location'', ''dynamic'')]"

definition typeNamesOfRepository :: "string table" where
  "typeNamesOfRepository =
     [(''lib'', stdlibTypeReplacements),
      (''lib.es6'', stdlibTypeReplacements),
      (''angular2/src/facade/lang'', [(''Date'', ''DateTime'')]),
      (''rxjs/Observable'', [(''Observable'', ''Stream'')]),
      (''es6-promise/es6-promise'', [(''Promise'', ''Future'')]),
      (''es6-shim/es6-shim'', [(''Promise'', ''Future'')])]"

definition es6Promises :: "(string \<Rightarrow> 'a) \<Rightarrow> (string \<times> 'a) list" where
  "es6Promises impl = rules impl [''Promise.catch'', ''Promise.then'', ''Promise'']"

definition stdlibHandlers :: "(string \<Rightarrow> 'a) \<Rightarrow> (string \<times> 'a) list" where
  "stdlibHandlers impl =
     merge [es6Promises impl,
       rules impl [''Array.push'', ''Array.pop'', ''Array.shift'', ''Array.unshift'',
         ''Array.map'', ''Array.filter'', ''Array.some'', ''Array.slice'', ''Array.splice'',
         ''Array.concat'', ''Array.join'', ''Array.reduce'', ''ArrayConstructor.isArray'',
         ''RegExp.test'', ''RegExp.exec'', ''String.substr'']]"

definition es6Collections :: "(string \<Rightarrow> 'a) \<Rightarrow> (string \<times> 'a) list" where
  "es6Collections impl =
     rules impl [''Map.set'', ''Map.get'', ''Map.has'', ''Map.delete'', ''Map.forEach'',
       ''Array.find'']"

definition callHandlersOfRepository :: "(string \<Rightarrow> 'a) \<Rightarrow> 'a table" where
  "callHandlersOfRepository impl =
     [(''lib'', stdlibHandlers impl),
      (''lib.es6'', stdlibHandlers impl),
      (''es6-promise/es6-promise'', es6Promises impl),
      (''es6-shim/es6-shim'', merge [es6Promises impl, es6Collections impl]),
      (''es6-collections/es6-collections'', es6Collections impl),
      (''angular2/manual_typings/globals'', es6Collections impl),
      (''angular2/src/facade/collection'', rules impl [''Map'']),
      (''angular2/src/core/di/forward_ref'', rules impl [''forwardRef'']),
      (''angular2/src/facade/lang'', rules impl [''CONST_EXPR'', ''normalizeBlank''])]"

definition es6CollectionsProp :: "(string \<Rightarrow> 'a) \<Rightarrow> (string \<times> 'a) list" where
  "es6CollectionsProp impl = rules impl [''Map.size'']"

definition es6PromisesProp :: "(string \<Rightarrow> 'a) \<Rightarrow> (string \<times> 'a) list" where
  "es6PromisesProp impl = rules impl [''resolve'', ''reject'']"

definition propertyHandlersOfRepository :: "(string \<Rightarrow> 'a) \<Rightarrow> 'a table" where
  "propertyHandlersOfRepository impl =
     [(''es6-shim/es6-shim'', es6CollectionsProp impl),
      (''es6-collections/es6-collections'', es6CollectionsProp impl),
      (''es6-promise/es6-promise'', es6PromisesProp impl)]"

definition replaceNewOfRepository :: "bool table" where
  "replaceNewOfRepository =
     [(''es6-promise/es6-promise'', [(''Promise'', True)]),
      (''es6-shim/es6-shim'', [(''Promise'', True)])]"

section \<open>The declaration transpiler\<close>

text \<open>
  \<^verbatim>\<open>visitVariableDeclarationType\<close>. The list \<^verbatim>\<open>varDecl.parent\<close> is an argument.
  \<^verbatim>\<open>firstDecl === varDecl\<close> compares references: declarators are equal when they are the
  same node.
\<close>

definition visitVariableDeclarationType ::
  "transpilerBase \<Rightarrow> variableDeclarationList \<Rightarrow> variableDeclaration \<Rightarrow> unit action" where
  "visitVariableDeclarationType b parent varDecl =
     (let firstDecl = (case listDeclarations parent of [] \<Rightarrow> None | d # ds \<Rightarrow> Some d);
          msg = ''Variables in a declaration list of more than one variable cannot by typed'';
          isFinal = hasFlag (listFlags parent) Const;
          isConst = (if isFinal \<and> declarationInitializer varDecl \<noteq> None
                     then isConstCall (declarationInitializer varDecl) else False)
      in if firstDecl = Some varDecl
         then seq [
           (if isConst then emit ''const'' else ifThen isFinal (emit ''final'')),
           (case declaredType varDecl of
              None \<Rightarrow> ifThen (\<not> isFinal) (emit ''var'')
            | Some ty \<Rightarrow>
                if length (listDeclarations parent) > 1
                then reportError (declarationId varDecl) msg
                else visit b ty)]
         else (case declaredType varDecl of
                 None \<Rightarrow> returning ()
               | Some ty \<Rightarrow> reportError (declarationId varDecl) msg))"

text \<open>The case \<^verbatim>\<open>ts.SyntaxKind.VariableDeclaration\<close> of \<^verbatim>\<open>visitNode\<close>.\<close>

definition visitNode_VariableDeclaration ::
  "transpilerBase \<Rightarrow> variableDeclarationList \<Rightarrow> variableDeclaration \<Rightarrow> bool action" where
  "visitNode_VariableDeclaration b parent varDecl =
     andThen (seq [
        visitVariableDeclarationType b parent varDecl,
        visit b (declarationName varDecl),
        (case declarationInitializer varDecl of
           None \<Rightarrow> returning ()
         | Some init \<Rightarrow> seq [emit ''='', visit b init])])
       (\<lambda>_. returning True)"

text \<open>The case \<^verbatim>\<open>ts.SyntaxKind.EnumMember\<close> of \<^verbatim>\<open>visitNode\<close>.\<close>

definition visitNode_EnumMember :: "transpilerBase \<Rightarrow> enumMember \<Rightarrow> bool action" where
  "visitNode_EnumMember b member =
     andThen (seq [
        visit b (memberName member),
        ifThen (memberInitializer member \<noteq> None)
          (reportError (memberId member) ''enum initializers are not supported'')])
       (\<lambda>_. returning True)"

text \<open>
  The loop of \<^verbatim>\<open>visitParameters\<close> that finds \<^verbatim>\<open>firstInitParamIdx\<close>, started at
  index \<open>i\<close>.
\<close>

definition isOpt :: "parameterDeclaration \<Rightarrow> bool" where
  "isOpt p = (initializer p \<noteq> None \<or> questionToken p \<noteq> None)"

function findFirstInitParamIdx :: "parameterDeclaration list \<Rightarrow> nat \<Rightarrow> nat" where
  "findFirstInitParamIdx ps i =
     (if i < length ps
      then (if isOpt (ps ! i) \<and> kind (paramName (ps ! i)) \<noteq> ObjectBindingPattern
            then i
            else findFirstInitParamIdx ps (i + 1))
      else i)"
  by pat_completeness auto
termination
  by (relation "measure (\<lambda>(ps, i). length ps - i)") auto

definition visitParameters :: "transpilerBase \<Rightarrow> parameterDeclaration list \<Rightarrow> unit action" where
  "visitParameters b ps =
     (let firstInitParamIdx = findFirstInitParamIdx ps 0 in
      seq [
        emit ''('',
        ifThen (firstInitParamIdx \<noteq> 0)
          (let requiredParams = take firstInitParamIdx ps
           in visitList b (map Param requiredParams)),
        ifThen (firstInitParamIdx \<noteq> length ps)
          (seq [
             ifThen (firstInitParamIdx \<noteq> 0) (emit '',''),
             (let positionalOptional = drop firstInitParamIdx ps
              in seq [emit ''['', visitList b (map Param positionalOptional), emit '']''])]),
        emit '')''])"




section \<open>Example inputs\<close>

text \<open>
  A tree walk that emits the text of an identifier, the name of a parameter, fails inside
  a block after emitting its brace, and emits \<open>_\<close> for any other node.
\<close>

definition exampleVisit :: "node \<Rightarrow> unit action" where
  "exampleVisit n =
     (case n of
        Ident i \<Rightarrow> emit (identText i)
      | Param p \<Rightarrow> (case paramName p of Ident i \<Rightarrow> emit (identText i) | _ \<Rightarrow> emit ''{}'')
      | Other i k \<Rightarrow> if k = Block then andThen (emit ''{'') (\<lambda>_. throw ''Error'') else emit ''_''
      | _ \<Rightarrow> emit ''_'')"

definition exampleBase :: transpilerBase where
  "exampleBase =
     \<lparr> visit = exampleVisit,
       visitList = (\<lambda>ns. seq (map exampleVisit ns)),
       getRelativeFileName = (\<lambda>f. f) \<rparr>"

text \<open>
  A rule that emits the name it is registered under and returns \<^verbatim>\<open>undefined\<close>, as the
  rules of the repository do that have no \<^verbatim>\<open>return\<close> statement; a rule that emits and
  returns \<^verbatim>\<open>true\<close>: it declines.
\<close>

definition exampleRule :: "string \<Rightarrow> callHandler" where
  "exampleRule n = (\<lambda>c context. andThen (emit n) (\<lambda>_. returning JUndefined))"

definition decliningRule :: "string \<Rightarrow> callHandler" where
  "decliningRule n = (\<lambda>c context. andThen (emit n) (\<lambda>_. returning (JBool True)))"

definition examplePropertyRule :: "string \<Rightarrow> propertyHandler" where
  "examplePropertyRule n = (\<lambda>pa. andThen (emit n) (\<lambda>_. returning JUndefined))"

definition libDeclaration :: tsDeclaration where
  "libDeclaration = \<lparr> sourceFileName = ''lib.d.ts'', parentKind = Some (OtherKind 0) \<rparr>"

definition libEs6Declaration :: tsDeclaration where
  "libEs6Declaration = \<lparr> sourceFileName = ''lib.es6.d.ts'', parentKind = Some (OtherKind 0) \<rparr>"

definition pushSymbol :: symbol where
  "pushSymbol =
     \<lparr> symbolId = 1, symbolFlags = {OtherSymbolFlag 0}, symbolName = ''push'',
       valueDeclaration = Some libDeclaration, declarations = Some [libDeclaration] \<rparr>"

definition dateSymbol :: symbol where
  "dateSymbol =
     \<lparr> symbolId = 2, symbolFlags = {FunctionScopedVariable}, symbolName = ''Date'',
       valueDeclaration = Some libDeclaration, declarations = Some [libDeclaration] \<rparr>"

definition arraySymbol :: symbol where
  "arraySymbol =
     \<lparr> symbolId = 3, symbolFlags = {FunctionScopedVariable}, symbolName = ''Array'',
       valueDeclaration = Some libDeclaration, declarations = Some [libDeclaration] \<rparr>"

definition es6ArraySymbol :: symbol where
  "es6ArraySymbol =
     \<lparr> symbolId = 4, symbolFlags = {FunctionScopedVariable}, symbolName = ''Array'',
       valueDeclaration = Some libEs6Declaration, declarations = Some [libEs6Declaration] \<rparr>"

text \<open>
  A checker that knows the method of node 2, the type name of node 20 and the types of
  the nodes 30 and 31, and nothing else.
\<close>

definition exampleChecker :: typeChecker where
  "exampleChecker =
     \<lparr> getSymbolAtLocation =
         (\<lambda>n. if nodeId n = 2 then Some pushSymbol
              else if nodeId n = 20 then Some dateSymbol
              else None),
       getAliasedSymbol = (\<lambda>sy. sy),
       getFullyQualifiedName = (\<lambda>sy. if symbolId sy = 1 then ''Array.push'' else symbolName sy),
       getTypeAtLocation =
         (\<lambda>n. if nodeId n = 30 then Some \<lparr> typeFlags = {}, typeSymbol = Some arraySymbol \<rparr>
              else if nodeId n = 31 then Some \<lparr> typeFlags = {}, typeSymbol = Some es6ArraySymbol \<rparr>
              else None) \<rparr>"

definition repositoryConverter :: facadeConverter where
  "repositoryConverter =
     FacadeConverter (callHandlersOfRepository exampleRule)
       (propertyHandlersOfRepository examplePropertyRule)
       typeNamesOfRepository replaceNewOfRepository (\<lambda>f. f)"

definition checkedConverter :: facadeConverter where
  "checkedConverter = setTypeChecker repositoryConverter exampleChecker"

text \<open>The same converter with rules that decline.\<close>

definition decliningConverter :: facadeConverter where
  "decliningConverter =
     setTypeChecker
       (FacadeConverter (callHandlersOfRepository decliningRule)
          (propertyHandlersOfRepository examplePropertyRule)
          typeNamesOfRepository replaceNewOfRepository (\<lambda>f. f))
       exampleChecker"

definition initialState :: tstate where
  "initialState = \<lparr> emitted = [], errors = [], genericMethodDeclDepth = 0, symbolQueries = [] \<rparr>"

text \<open>The calls \<^verbatim>\<open>xs.push(y)\<close> and \<^verbatim>\<open>foo(y)\<close>, and the access \<^verbatim>\<open>xs.length\<close>.\<close>

definition pushCall :: callExpression where
  "pushCall =
     CallExpr 1 CallExpression
       (Access (PropertyAccess 2 (Ident \<lparr>identId = 3, identText = ''xs''\<rparr>)
          \<lparr>identId = 4, identText = ''push''\<rparr>))
       [Ident \<lparr>identId = 5, identText = ''y''\<rparr>]"

definition fooCall :: callExpression where
  "fooCall =
     CallExpr 10 CallExpression (Ident \<lparr>identId = 11, identText = ''foo''\<rparr>)
       [Ident \<lparr>identId = 12, identText = ''y''\<rparr>]"

definition lengthAccess :: propertyAccessExpression where
  "lengthAccess =
     PropertyAccess 13 (Ident \<lparr>identId = 14, identText = ''xs''\<rparr>)
       \<lparr>identId = 15, identText = ''length''\<rparr>"

text \<open>The type names \<^verbatim>\<open>Date\<close> (known to the checker) and \<^verbatim>\<open>Promise\<close> (unknown).\<close>

definition dateName :: node where
  "dateName = Ident \<lparr>identId = 20, identText = ''Date''\<rparr>"

definition promiseName :: node where
  "promiseName = Ident \<lparr>identId = 21, identText = ''Promise''\<rparr>"

text \<open>Two arguments: one of a type declared in lib.d.ts, one of a type declared in lib.es6.d.ts.\<close>

definition arrayArgument :: node where
  "arrayArgument = Other 30 (OtherKind 1)"

definition es6ArrayArgument :: node where
  "es6ArrayArgument = Other 31 (OtherKind 1)"

text \<open>
  The parameters \<^verbatim>\<open>a\<close>, \<^verbatim>\<open>{x, y}\<close>, \<^verbatim>\<open>c?\<close> and \<^verbatim>\<open>{u, v} = {}\<close>.
\<close>

definition plainParameter :: parameterDeclaration where
  "plainParameter = Parameter 40 (Ident \<lparr>identId = 41, identText = ''a''\<rparr>) None None"

definition destructuredParameter :: parameterDeclaration where
  "destructuredParameter = Parameter 42 (Other 43 ObjectBindingPattern) None None"

definition optionalParameter :: parameterDeclaration where
  "optionalParameter =
     Parameter 44 (Ident \<lparr>identId = 45, identText = ''c''\<rparr>) None (Some (Other 46 (OtherKind 2)))"

definition defaultedDestructuredParameter :: parameterDeclaration where
  "defaultedDestructuredParameter =
     Parameter 47 (Other 48 ObjectBindingPattern) (Some (Other 49 (OtherKind 3))) None"

text \<open>
  The declarators \<^verbatim>\<open>i: number\<close>, \<^verbatim>\<open>j\<close> and \<^verbatim>\<open>k: number\<close>, and the lists
  \<^verbatim>\<open>let i: number\<close> and \<^verbatim>\<open>let j, k: number\<close>.
\<close>

definition typedDeclarator :: variableDeclaration where
  "typedDeclarator =
     \<lparr> declarationId = 50, declarationName = Ident \<lparr>identId = 51, identText = ''i''\<rparr>,
       declaredType = Some (Ident \<lparr>identId = 52, identText = ''number''\<rparr>),
       declarationInitializer = None \<rparr>"

definition untypedDeclarator :: variableDeclaration where
  "untypedDeclarator =
     \<lparr> declarationId = 53, declarationName = Ident \<lparr>identId = 54, identText = ''j''\<rparr>,
       declaredType = None, declarationInitializer = None \<rparr>"

definition secondTypedDeclarator :: variableDeclaration where
  "secondTypedDeclarator =
     \<lparr> declarationId = 55, declarationName = Ident \<lparr>identId = 56, identText = ''k''\<rparr>,
       declaredType = Some (Ident \<lparr>identId = 57, identText = ''number''\<rparr>),
       declarationInitializer = None \<rparr>"

definition singleTypedList :: variableDeclarationList where
  "singleTypedList = \<lparr> listFlags = {}, listDeclarations = [typedDeclarator] \<rparr>"

definition twoDeclaratorList :: variableDeclarationList where
  "twoDeclaratorList =
     \<lparr> listFlags = {}, listDeclarations = [untypedDeclarator, secondTypedDeclarator] \<rparr>"



text \<open>
  A tree walk that reads the generic-method depth: it emits \<open>generic\<close> for a node visited
  while the counter is raised and \<open>plain\<close> otherwise, and fails inside a block after that.
\<close>

definition depthReadingVisit :: "node \<Rightarrow> unit action" where
  "depthReadingVisit n = (\<lambda>s.
     let seen = emit (if genericMethodDeclDepth s = 0 then ''plain'' else ''generic'')
     in if kind n = Block then andThen seen (\<lambda>_. throw ''Error'') s else seen s)"

definition depthReadingBase :: transpilerBase where
  "depthReadingBase =
     \<lparr> visit = depthReadingVisit,
       visitList = (\<lambda>ns. seq (map depthReadingVisit ns)),
       getRelativeFileName = (\<lambda>f. f) \<rparr>"

text \<open>The enum member \<^verbatim>\<open>A = 1\<close>.\<close>

definition initialisedMember :: enumMember where
  "initialisedMember =
     \<lparr> memberId = 70, memberName = Ident \<lparr>identId = 71, identText = ''A''\<rparr>,
       memberInitializer = Some (Other 72 (OtherKind 4)) \<rparr>"

section \<open>Vocabulary of the claims\<close>


text \<open>
  An action keeps the generic-method depth when, on every exit (a return or an
  exception), the counter has the value it had before.
\<close>

definition keepsDepth :: "'a action \<Rightarrow> bool" where
  "keepsDepth m =
     (\<forall>s. fst (m s) \<noteq> Diverges \<longrightarrow>
          genericMethodDeclDepth (snd (m s)) = genericMethodDeclDepth s)"

section \<open>Sequencing lemmas\<close>

lemma andThen_returning [simp]: "andThen (returning v) f = f v"
  by (simp add: andThen_def returning_def)

lemma andThen_throw [simp]: "andThen (throw e) f = throw e"
  by (simp add: andThen_def throw_def)

lemma returning_apply: "returning v s = (Returns v, s)"
  by (simp add: returning_def)

lemma throw_apply: "throw e s = (Throws e, s)"
  by (simp add: throw_def)

lemma followAliases_no_alias:
  "Alias \<notin> symbolFlags symbol \<Longrightarrow> followAliases checker symbol = Some (Returns symbol)"
  by (subst followAliases.simps) simp

text \<open>
  The alias loop returns when the chain of aliases reaches, after finitely many steps, a
  symbol that is no alias; it never returns for a symbol that is an alias of itself.
\<close>

lemma followAliases_finite_chain:
  "Alias \<notin> symbolFlags ((getAliasedSymbol t ^^ n) symbol) \<Longrightarrow>
     \<exists>k \<le> n. followAliases (Some t) symbol = Some (Returns ((getAliasedSymbol t ^^ k) symbol))"
proof (induction n arbitrary: symbol)
  case 0
  then show ?case by (simp add: followAliases_no_alias)
next
  case (Suc n)
  show ?case
  proof (cases "Alias \<in> symbolFlags symbol")
    case False
    then have "followAliases (Some t) symbol = Some (Returns ((getAliasedSymbol t ^^ 0) symbol))"
      by (simp add: followAliases_no_alias)
    then show ?thesis by blast
  next
    case True
    from Suc.prems have "Alias \<notin> symbolFlags ((getAliasedSymbol t ^^ n) (getAliasedSymbol t symbol))"
      by (simp add: funpow_swap1)
    from Suc.IH [OF this] obtain k where k: "k \<le> n"
      and run: "followAliases (Some t) (getAliasedSymbol t symbol)
        = Some (Returns ((getAliasedSymbol t ^^ k) (getAliasedSymbol t symbol)))"
      by blast
    from True run have "followAliases (Some t) symbol
        = Some (Returns ((getAliasedSymbol t ^^ Suc k) symbol))"
      by (subst followAliases.simps) (simp add: funpow_swap1)
    with k show ?thesis by (intro exI [where x = "Suc k"]) simp
  qed
qed

lemma followAliases_leaves_cycle:
  assumes "followAliases c symbol = Some r"
  shows "c = Some t \<longrightarrow> Alias \<in> symbolFlags symbol \<longrightarrow> getAliasedSymbol t symbol \<noteq> symbol"
  by (rule followAliases.raw_induct [OF _ assms]) (auto split: if_splits)

lemma followAliases_cycle:
  assumes "Alias \<in> symbolFlags symbol" and "getAliasedSymbol t symbol = symbol"
  shows "followAliases (Some t) symbol = None"
proof (cases "followAliases (Some t) symbol")
  case (Some r)
  with assms followAliases_leaves_cycle [OF Some, of t] show ?thesis by simp
qed simp

section \<open>The candidate sets of the repository's tables\<close>

lemma candidateProperties_repository:
  "dom (candidateProperties repositoryConverter) =
     set [''catch'', ''then'', ''Promise'', ''push'', ''pop'', ''shift'', ''unshift'', ''map'',
          ''filter'', ''some'', ''slice'', ''splice'', ''concat'', ''join'', ''reduce'',
          ''isArray'', ''test'', ''exec'', ''substr'', ''set'', ''get'', ''has'', ''delete'',
          ''forEach'', ''find'', ''Map'', ''forwardRef'', ''CONST_EXPR'', ''normalizeBlank'',
          ''size'', ''resolve'', ''reject'']"
  by (simp add: repositoryConverter_def FacadeConverter_def extractPropertyNames_def
      callHandlersOfRepository_def propertyHandlersOfRepository_def stdlibHandlers_def
      es6Promises_def es6Collections_def es6CollectionsProp_def es6PromisesProp_def
      rules_def merge_def lastSegment_def insert_commute)

lemma candidateTypes_repository:
  "dom (candidateTypes repositoryConverter) =
     set [''Date'', ''Array'', ''XMLHttpRequest'', ''Uint8Array'', ''ArrayBuffer'', ''Promise'',
          ''Node'', ''Text'', ''Element'', ''Event'', ''HTMLElement'', ''HTMLAnchorElement'',
          ''HTMLStyleElement'', ''HTMLInputElement'', ''HTMLDocument'', ''History'',
          ''Location'', ''Observable'']"
  by (simp add: repositoryConverter_def FacadeConverter_def extractPropertyNames_def
      typeNamesOfRepository_def stdlibTypeReplacements_def lastSegment_def insert_commute)

lemma checkedConverter_fields [simp]:
  "tc checkedConverter = Some exampleChecker"
  "candidateProperties checkedConverter = candidateProperties repositoryConverter"
  "candidateTypes checkedConverter = candidateTypes repositoryConverter"
  "callHandlers checkedConverter = callHandlersOfRepository exampleRule"
  "TS_TO_DART_TYPENAMES checkedConverter = typeNamesOfRepository"
  "stripTypingsRoot checkedConverter = (\<lambda>f. f)"
  by (simp_all add: checkedConverter_def setTypeChecker_def repositoryConverter_def
      FacadeConverter_def)

section \<open>Claims\<close>

text \<open>
  C9. While no type checker is set, \<^verbatim>\<open>maybeHandleCall\<close> returns \<^verbatim>\<open>false\<close>,
  \<^verbatim>\<open>handlePropertyAccess\<close> returns \<^verbatim>\<open>undefined\<close> (falsy, and not the boolean) and
  \<^verbatim>\<open>shouldEmitNew\<close> returns \<^verbatim>\<open>true\<close>, for every node; the state is the one before the
  call, so nothing is emitted and nothing is reported.
\<close>

theorem no_type_checker_defaults:
  assumes "tc fc = None"
  shows "maybeHandleCall b fc c s = (Returns (JBool False), s)
       \<and> handlePropertyAccess b fc pa s = (Returns JUndefined, s)
       \<and> shouldEmitNew b fc c s = (Returns True, s)"
  using assms
  by (simp add: maybeHandleCall_def handlePropertyAccess_def shouldEmitNew_def returning_def)

theorem no_type_checker_defaults_witness:
  "tc repositoryConverter = None
   \<and> maybeHandleCall exampleBase repositoryConverter pushCall initialState
       = (Returns (JBool False), initialState)
   \<and> handlePropertyAccess exampleBase repositoryConverter lengthAccess initialState
       = (Returns JUndefined, initialState)
   \<and> shouldEmitNew exampleBase repositoryConverter pushCall initialState
       = (Returns True, initialState)"
proof -
  have unset: "tc repositoryConverter = None"
    by (simp add: repositoryConverter_def FacadeConverter_def)
  show ?thesis
    using unset
      no_type_checker_defaults [OF unset, of exampleBase pushCall initialState lengthAccess]
    by simp
qed

text \<open>
  C6. A call whose callee is an identifier, or a property access, with a name outside
  \<^verbatim>\<open>candidateProperties\<close> is not handled: \<^verbatim>\<open>maybeHandleCall\<close> returns \<^verbatim>\<open>false\<close> and
  the state is the one before the call, so the checker's \<^verbatim>\<open>getSymbolAtLocation\<close> was not
  called and no diagnostic was reported.
\<close>

theorem maybeHandleCall_fast_reject:
  assumes "callee c = Ident i \<and> nm = identText i
         \<or> callee c = Access pa \<and> nm = identText (accessName pa)"
    and "nm \<notin> dom (candidateProperties fc)"
  shows "maybeHandleCall b fc c s = (Returns (JBool False), s)"
  using assms
  by (auto simp add: maybeHandleCall_def getCallInformation_def jsString_def returning_def
      andThen_def Let_def domIff)

theorem maybeHandleCall_fast_reject_witness:
  "callee fooCall = Ident \<lparr>identId = 11, identText = ''foo''\<rparr>
   \<and> ''foo'' \<notin> dom (candidateProperties checkedConverter)
   \<and> tc checkedConverter \<noteq> None
   \<and> maybeHandleCall exampleBase checkedConverter fooCall initialState
       = (Returns (JBool False), initialState)"
proof -
  have shape: "callee fooCall = Ident \<lparr>identId = 11, identText = ''foo''\<rparr>"
    by (simp add: fooCall_def)
  have absent: "''foo'' \<notin> dom (candidateProperties checkedConverter)"
    by (simp add: candidateProperties_repository)
  show ?thesis
    using shape absent
      maybeHandleCall_fast_reject [of fooCall "\<lparr>identId = 11, identText = ''foo''\<rparr>" "''foo''"
        _ checkedConverter exampleBase initialState]
    by simp
qed



lemma decliningConverter_fields [simp]:
  "tc decliningConverter = Some exampleChecker"
  "callHandlers decliningConverter = callHandlersOfRepository decliningRule"
  "stripTypingsRoot decliningConverter = (\<lambda>f. f)"
  by (simp_all add: decliningConverter_def setTypeChecker_def FacadeConverter_def)






lemma map_of_typeNames_lib:
  "map_of typeNamesOfRepository ''lib'' = Some stdlibTypeReplacements"
  by (simp add: typeNamesOfRepository_def)

lemma libDeclaration_canonical:
  "stripNodeModulesPrefix (stripTsSuffix ''lib.d.ts'') = ''lib''"
  by (simp add: stripTsSuffix_def stripNodeModulesPrefix_def)

lemma libEs6Declaration_canonical:
  "stripNodeModulesPrefix (stripTsSuffix ''lib.es6.d.ts'') = ''lib.es6''"
  by (simp add: stripTsSuffix_def stripNodeModulesPrefix_def)

lemma dateSymbol_located:
  "getFileAndName exampleBase checkedConverter n dateSymbol s
     = (Returns (Some \<lparr>fileName = ''lib'', qname = ''Date''\<rparr>), s)"
  by (simp add: getFileAndName_def resolveAliases_def followAliases_no_alias dateSymbol_def
      libDeclaration_def exampleBase_def Variable_def libDeclaration_canonical
      andThen_def returning_def)

lemma not_generic_at_depth_0:
  "genericMethodDeclDepth s = 0 \<Longrightarrow>
     isGenericMethodTypeParameterName fc n s = (Returns False, s)"
  by (simp add: isGenericMethodTypeParameterName_def)

text \<open>
  C2, as amended. Let the type name be a plain identifier for which
  \<^verbatim>\<open>isGenericMethodTypeParameterName\<close> returns \<^verbatim>\<open>false\<close>. When the identifier is not
  in \<^verbatim>\<open>candidateTypes\<close>, or no checker is set, its own text is emitted. When it is a
  candidate and the checker finds no symbol, the missing-type diagnostic is reported for
  the node and nothing is emitted. When the checker finds a symbol and
  \<^verbatim>\<open>getFileAndName\<close> returns, the replacement registered under the canonical key is
  emitted, and the identifier's own text when there is no key or no replacement; when
  \<^verbatim>\<open>getFileAndName\<close> throws or does not return, so does \<^verbatim>\<open>visitTypeName\<close>, and
  nothing is emitted.
\<close>

theorem visitTypeName_identifier:
  assumes "isGenericMethodTypeParameterName fc (Ident i) s = (Returns False, s0)"
  shows
    "(identText i \<notin> dom (candidateTypes fc) \<or> tc fc = None \<longrightarrow>
        visitTypeName b fc (Ident i) s = emit (identText i) s0)
   \<and> (\<forall>t. identText i \<in> dom (candidateTypes fc) \<and> tc fc = Some t
          \<and> getSymbolAtLocation t (Ident i) = None \<longrightarrow>
        visitTypeName b fc (Ident i) s
          = reportMissingType (identId i) (identText i)
              (s0\<lparr>symbolQueries := symbolQueries s0 @ [identId i]\<rparr>))
   \<and> (\<forall>t resolved loc s1. identText i \<in> dom (candidateTypes fc) \<and> tc fc = Some t
          \<and> getSymbolAtLocation t (Ident i) = Some resolved
          \<and> getFileAndName b fc (identId i) resolved
                (s0\<lparr>symbolQueries := symbolQueries s0 @ [identId i]\<rparr>) = (Returns loc, s1) \<longrightarrow>
        visitTypeName b fc (Ident i) s
          = emit (case loc of
                    None \<Rightarrow> identText i
                  | Some l \<Rightarrow>
                      (case map_of (TS_TO_DART_TYPENAMES fc) (fileName l) of
                         None \<Rightarrow> identText i
                       | Some fileSubs \<Rightarrow>
                           (case map_of fileSubs (qname l) of
                              None \<Rightarrow> identText i
                            | Some replacement \<Rightarrow> replacement))) s1)
   \<and> (\<forall>t resolved e s1. identText i \<in> dom (candidateTypes fc) \<and> tc fc = Some t
          \<and> getSymbolAtLocation t (Ident i) = Some resolved
          \<and> getFileAndName b fc (identId i) resolved
                (s0\<lparr>symbolQueries := symbolQueries s0 @ [identId i]\<rparr>) = (Throws e, s1) \<longrightarrow>
        visitTypeName b fc (Ident i) s = (Throws e, s1))
   \<and> (\<forall>t resolved s1. identText i \<in> dom (candidateTypes fc) \<and> tc fc = Some t
          \<and> getSymbolAtLocation t (Ident i) = Some resolved
          \<and> getFileAndName b fc (identId i) resolved
                (s0\<lparr>symbolQueries := symbolQueries s0 @ [identId i]\<rparr>) = (Diverges, s1) \<longrightarrow>
        visitTypeName b fc (Ident i) s = (Diverges, s1))"
  using assms
  by (auto simp add: visitTypeName_def jsString_def andThen_def Let_def symbolAtLocation_def
      split: option.splits)

theorem visitTypeName_identifier_witness:
  "isGenericMethodTypeParameterName checkedConverter dateName initialState
       = (Returns False, initialState)
   \<and> visitTypeName exampleBase checkedConverter dateName initialState
       = (Returns (), \<lparr> emitted = [''DateTime''], errors = [], genericMethodDeclDepth = 0,
                         symbolQueries = [20] \<rparr>)
   \<and> visitTypeName exampleBase repositoryConverter dateName initialState
       = (Returns (), \<lparr> emitted = [''Date''], errors = [], genericMethodDeclDepth = 0,
                         symbolQueries = [] \<rparr>)
   \<and> visitTypeName exampleBase checkedConverter promiseName initialState
       = reportMissingType 21 ''Promise''
           \<lparr> emitted = [], errors = [], genericMethodDeclDepth = 0, symbolQueries = [21] \<rparr>"
proof -
  let ?date = "\<lparr>identId = 20, identText = ''Date''\<rparr>"
  let ?promise = "\<lparr>identId = 21, identText = ''Promise''\<rparr>"
  have plain: "isGenericMethodTypeParameterName fc n initialState = (Returns False, initialState)"
    for fc n
    by (simp add: not_generic_at_depth_0 initialState_def)
  have unset: "tc repositoryConverter = None"
    by (simp add: repositoryConverter_def FacadeConverter_def)
  have date: "identText ?date \<in> dom (candidateTypes checkedConverter)
      \<and> tc checkedConverter = Some exampleChecker
      \<and> getSymbolAtLocation exampleChecker (Ident ?date) = Some dateSymbol
      \<and> getFileAndName exampleBase checkedConverter (identId ?date) dateSymbol
            (initialState\<lparr>symbolQueries := symbolQueries initialState @ [identId ?date]\<rparr>)
          = (Returns (Some \<lparr>fileName = ''lib'', qname = ''Date''\<rparr>),
             initialState\<lparr>symbolQueries := symbolQueries initialState @ [identId ?date]\<rparr>)"
    by (simp add: candidateTypes_repository exampleChecker_def dateSymbol_located)
  have promise: "identText ?promise \<in> dom (candidateTypes checkedConverter)
      \<and> tc checkedConverter = Some exampleChecker
      \<and> getSymbolAtLocation exampleChecker (Ident ?promise) = None"
    by (simp add: candidateTypes_repository exampleChecker_def)
  note claim = visitTypeName_identifier [where b = exampleBase and s = initialState
      and s0 = initialState, OF plain]
  have "visitTypeName exampleBase checkedConverter (Ident ?date) initialState
      = emit ''DateTime'' (initialState\<lparr>symbolQueries := symbolQueries initialState @ [20]\<rparr>)"
    using date claim [where fc = checkedConverter and i = "?date"]
    by (simp add: map_of_typeNames_lib stdlibTypeReplacements_def)
  moreover have "visitTypeName exampleBase repositoryConverter (Ident ?date) initialState
      = emit ''Date'' initialState"
    using unset claim [where fc = repositoryConverter and i = "?date"] by simp
  moreover have "visitTypeName exampleBase checkedConverter (Ident ?promise) initialState
      = reportMissingType 21 ''Promise''
          (initialState\<lparr>symbolQueries := symbolQueries initialState @ [21]\<rparr>)"
    using promise claim [where fc = checkedConverter and i = "?promise"] by simp
  ultimately show ?thesis
    using plain by (simp add: dateName_def promiseName_def emit_def initialState_def)
qed

text \<open>
  C2 as stated fails: \<^verbatim>\<open>Promise\<close> is a candidate, it is no type parameter of a generic
  function and the checker has no symbol for it; \<^verbatim>\<open>visitTypeName\<close> reports the
  diagnostic and returns without emitting the identifier's text.
\<close>

theorem visitTypeName_unresolved_counterexample:
  "isGenericMethodTypeParameterName checkedConverter promiseName initialState
       = (Returns False, initialState)
   \<and> ''Promise'' \<in> dom (candidateTypes checkedConverter)
   \<and> getSymbolAtLocation exampleChecker promiseName = None
   \<and> fst (visitTypeName exampleBase checkedConverter promiseName initialState) = Returns ()
   \<and> emitted (snd (visitTypeName exampleBase checkedConverter promiseName initialState)) = []
   \<and> map fst (errors (snd (visitTypeName exampleBase checkedConverter promiseName initialState)))
       = [21]"
  by (simp add: not_generic_at_depth_0 candidateTypes_repository exampleChecker_def
      visitTypeName_def promiseName_def jsString_def initialState_def symbolAtLocation_def
      andThen_def reportMissingType_def reportError_def Let_def)

lemma findFirstInitParamIdx_takeWhile:
  "i \<le> length ps \<Longrightarrow>
     findFirstInitParamIdx ps i
       = i + length (takeWhile
               (\<lambda>p. kind (paramName p) = ObjectBindingPattern \<or> \<not> isOpt p) (drop i ps))"
proof (induction ps i rule: findFirstInitParamIdx.induct)
  case (1 ps i)
  show ?case
  proof (cases "i < length ps")
    case False
    with "1.prems" show ?thesis by (subst findFirstInitParamIdx.simps) simp
  next
    case inside: True
    then have split: "drop i ps = ps ! i # drop (Suc i) ps"
      by (simp add: Cons_nth_drop_Suc)
    show ?thesis
    proof (cases "isOpt (ps ! i) \<and> kind (paramName (ps ! i)) \<noteq> ObjectBindingPattern")
      case True
      with inside split show ?thesis by (subst findFirstInitParamIdx.simps) auto
    next
      case False
      with inside have "findFirstInitParamIdx ps (i + 1)
          = (i + 1) + length (takeWhile
               (\<lambda>p. kind (paramName p) = ObjectBindingPattern \<or> \<not> isOpt p) (drop (i + 1) ps))"
        by (intro "1.IH") auto
      with inside split False show ?thesis by (subst findFirstInitParamIdx.simps) auto
    qed
  qed
qed

lemma take_length_takeWhile: "take (length (takeWhile P xs)) xs = takeWhile P xs"
  by (induction xs) auto

lemma drop_length_takeWhile: "drop (length (takeWhile P xs)) xs = dropWhile P xs"
  by (induction xs) auto

lemma exampleBase_fields [simp]:
  "visit exampleBase = exampleVisit"
  "visitList exampleBase = (\<lambda>ns. seq (map exampleVisit ns))"
  "getRelativeFileName exampleBase = (\<lambda>f. f)"
  by (simp_all add: exampleBase_def)

lemma emit_apply: "emit str s = (Returns (), s\<lparr>emitted := emitted s @ [str]\<rparr>)"
  by (simp add: emit_def)

lemma ifThen_simps [simp]: "ifThen True m = m" "ifThen False m = returning ()"
  by (simp_all add: ifThen_def)

text \<open>
  C3, as amended. \<^verbatim>\<open>visitParameters\<close> splits the list once: the required prefix is
  the longest leading run of parameters each of which is a destructuring pattern or has
  neither an initializer nor a question token; the bracketed group, emitted when it is not
  empty, holds all the parameters that remain, destructuring patterns among them, in the
  order of the list. The two parts make up the list.
\<close>

theorem visitParameters_groups:
  "visitParameters b ps =
     (let required = takeWhile (\<lambda>p. kind (paramName p) = ObjectBindingPattern \<or> \<not> isOpt p) ps;
          bracketed = dropWhile (\<lambda>p. kind (paramName p) = ObjectBindingPattern \<or> \<not> isOpt p) ps
      in seq [
           emit ''('',
           ifThen (required \<noteq> []) (visitList b (map Param required)),
           ifThen (bracketed \<noteq> [])
             (seq [ifThen (required \<noteq> []) (emit '',''),
                   seq [emit ''['', visitList b (map Param bracketed), emit '']'']]),
           emit '')''])
   \<and> takeWhile (\<lambda>p. kind (paramName p) = ObjectBindingPattern \<or> \<not> isOpt p) ps
       @ dropWhile (\<lambda>p. kind (paramName p) = ObjectBindingPattern \<or> \<not> isOpt p) ps = ps"
proof -
  let ?P = "\<lambda>p. kind (paramName p) = ObjectBindingPattern \<or> \<not> isOpt p"
  let ?k = "findFirstInitParamIdx ps 0"
  have idx: "?k = length (takeWhile ?P ps)"
    using findFirstInitParamIdx_takeWhile [of 0 ps] by simp
  have required: "take ?k ps = takeWhile ?P ps"
    unfolding idx by (rule take_length_takeWhile)
  have bracketed: "drop ?k ps = dropWhile ?P ps"
    unfolding idx by (rule drop_length_takeWhile)
  have some_required: "(?k \<noteq> 0) = (takeWhile ?P ps \<noteq> [])"
    unfolding idx by simp
  have "(length (takeWhile ?P ps) = length ps) = (dropWhile ?P ps = [])"
    by (metis append_self_conv length_append add_cancel_right_right length_0_conv
        takeWhile_dropWhile_id)
  then have some_bracketed: "(?k \<noteq> length ps) = (dropWhile ?P ps \<noteq> [])"
    unfolding idx by (rule arg_cong [where f = Not])
  have "visitParameters b ps =
      seq [
        emit ''('',
        ifThen (takeWhile ?P ps \<noteq> []) (visitList b (map Param (takeWhile ?P ps))),
        ifThen (dropWhile ?P ps \<noteq> [])
          (seq [ifThen (takeWhile ?P ps \<noteq> []) (emit '',''),
                seq [emit ''['', visitList b (map Param (dropWhile ?P ps)), emit '']'']]),
        emit '')'']"
    unfolding visitParameters_def Let_def required bracketed some_required some_bracketed
    by (rule refl)
  then show ?thesis
    unfolding Let_def by (intro conjI) (assumption, rule takeWhile_dropWhile_id)
qed

theorem visitParameters_groups_witness:
  "emitted (snd (visitParameters exampleBase
      [plainParameter, destructuredParameter, optionalParameter, defaultedDestructuredParameter]
      initialState))
     = [''('', ''a'', ''{}'', '','', ''['', ''c'', ''{}'', '']'', '')'']"
proof -
  let ?ps = "[plainParameter, destructuredParameter, optionalParameter,
      defaultedDestructuredParameter]"
  let ?P = "\<lambda>p. kind (paramName p) = ObjectBindingPattern \<or> \<not> isOpt p"
  have required: "takeWhile ?P ?ps = [plainParameter, destructuredParameter]"
    by (simp add: plainParameter_def destructuredParameter_def optionalParameter_def isOpt_def)
  have bracketed: "dropWhile ?P ?ps = [optionalParameter, defaultedDestructuredParameter]"
    by (simp add: plainParameter_def destructuredParameter_def optionalParameter_def isOpt_def)
  have "visitParameters exampleBase ?ps =
      seq [emit ''('',
           visitList exampleBase (map Param [plainParameter, destructuredParameter]),
           seq [emit '','',
                seq [emit ''['',
                     visitList exampleBase
                       (map Param [optionalParameter, defaultedDestructuredParameter]),
                     emit '']'']],
           emit '')'']"
    using visitParameters_groups [of exampleBase ?ps]
    unfolding required bracketed Let_def by simp
  then show ?thesis
    by (simp add: plainParameter_def destructuredParameter_def optionalParameter_def
        defaultedDestructuredParameter_def exampleVisit_def andThen_def emit_apply
        returning_def initialState_def)
qed

text \<open>
  C3 as stated fails. In \<^verbatim>\<open>({x, y}, a)\<close> no leading parameter is at once without
  initializer, without question token and not destructured, yet both parameters are
  emitted as required ones. In \<^verbatim>\<open>(c?, {x, y})\<close> the only remaining parameter that is
  not destructured is \<^verbatim>\<open>c\<close>, yet the brackets hold both.
\<close>

theorem visitParameters_groups_counterexample:
  "takeWhile (\<lambda>p. initializer p = None \<and> questionToken p = None
                 \<and> kind (paramName p) \<noteq> ObjectBindingPattern)
       [destructuredParameter, plainParameter] = []
   \<and> emitted (snd (visitParameters exampleBase [destructuredParameter, plainParameter]
         initialState))
       = [''('', ''{}'', ''a'', '')'']
   \<and> filter (\<lambda>p. kind (paramName p) \<noteq> ObjectBindingPattern)
         [optionalParameter, destructuredParameter] = [optionalParameter]
   \<and> emitted (snd (visitParameters exampleBase [optionalParameter, destructuredParameter]
         initialState))
       = [''('', ''['', ''c'', ''{}'', '']'', '')'']"
proof -
  have first: "findFirstInitParamIdx [destructuredParameter, plainParameter] 0 = 2"
    by (simp add: findFirstInitParamIdx_takeWhile destructuredParameter_def plainParameter_def
        isOpt_def)
  have second: "findFirstInitParamIdx [optionalParameter, destructuredParameter] 0 = 0"
    by (simp add: findFirstInitParamIdx_takeWhile optionalParameter_def isOpt_def)
  show ?thesis
    unfolding visitParameters_def first second Let_def
    by (simp add: plainParameter_def destructuredParameter_def optionalParameter_def
        exampleVisit_def andThen_def emit_apply returning_def initialState_def)
qed

text \<open>
  C4. Let a declarator carry an explicit type. In a list of two or more declarators it is
  reported with "Variables in a declaration list of more than one variable cannot by
  typed", whether it is the first of the list or a later one, and its type is not visited;
  before the report nothing but the list's keyword is emitted. When it is the only
  declarator of its list, the keyword is emitted, the type is visited, and
  \<^verbatim>\<open>visitVariableDeclarationType\<close> reports nothing.
\<close>

theorem visitVariableDeclarationType_typed:
  assumes "declaredType varDecl = Some ty"
  shows
    "(varDecl \<in> set (listDeclarations parent) \<and> 2 \<le> length (listDeclarations parent) \<longrightarrow>
        (\<exists>keyword. visitVariableDeclarationType b parent varDecl s
           = (Returns (),
              s\<lparr>emitted := emitted s @ keyword,
                errors := errors s @ [(declarationId varDecl,
                  ''Variables in a declaration list of more than one variable cannot by typed'')]\<rparr>)
         \<and> keyword \<in> {[], [''const''], [''final'']}))
   \<and> (listDeclarations parent = [varDecl] \<longrightarrow>
        (\<exists>keyword. visitVariableDeclarationType b parent varDecl s
           = andThen (visit b ty) (\<lambda>_. returning ()) (s\<lparr>emitted := emitted s @ keyword\<rparr>)
         \<and> keyword \<in> {[], [''const''], [''final'']}))"
proof (intro conjI impI)
  assume "varDecl \<in> set (listDeclarations parent) \<and> 2 \<le> length (listDeclarations parent)"
  then obtain d ds where list: "listDeclarations parent = d # ds" and many: "2 \<le> length (d # ds)"
    by (cases "listDeclarations parent") auto
  show "\<exists>keyword. visitVariableDeclarationType b parent varDecl s
           = (Returns (),
              s\<lparr>emitted := emitted s @ keyword,
                errors := errors s @ [(declarationId varDecl,
                  ''Variables in a declaration list of more than one variable cannot by typed'')]\<rparr>)
         \<and> keyword \<in> {[], [''const''], [''final'']}"
  proof (cases "d = varDecl")
    case False
    with assms list have "visitVariableDeclarationType b parent varDecl s
           = (Returns (),
              s\<lparr>emitted := emitted s @ [],
                errors := errors s @ [(declarationId varDecl,
                  ''Variables in a declaration list of more than one variable cannot by typed'')]\<rparr>)"
      by (simp add: visitVariableDeclarationType_def Let_def reportError_def)
    then show ?thesis by blast
  next
    case True
    let ?report = "\<lambda>keyword. visitVariableDeclarationType b parent varDecl s
           = (Returns (),
              s\<lparr>emitted := emitted s @ keyword,
                errors := errors s @ [(declarationId varDecl,
                  ''Variables in a declaration list of more than one variable cannot by typed'')]\<rparr>)"
    consider (deep) "hasFlag (listFlags parent) Const"
          "declarationInitializer varDecl \<noteq> None \<and> isConstCall (declarationInitializer varDecl)"
      | (final) "hasFlag (listFlags parent) Const"
          "\<not> (declarationInitializer varDecl \<noteq> None \<and> isConstCall (declarationInitializer varDecl))"
      | (plain) "\<not> hasFlag (listFlags parent) Const"
      by blast
    then show ?thesis
    proof cases
      case deep
      with True assms list many have "?report [''const'']"
        by (auto simp add: visitVariableDeclarationType_def Let_def reportError_def andThen_def
            emit_apply returning_def)
      then show ?thesis by blast
    next
      case final
      with True assms list many have "?report [''final'']"
        by (auto simp add: visitVariableDeclarationType_def Let_def reportError_def andThen_def
            emit_apply returning_def)
      then show ?thesis by blast
    next
      case plain
      with True assms list many have "?report []"
        by (auto simp add: visitVariableDeclarationType_def Let_def reportError_def andThen_def
            returning_def)
      then show ?thesis by blast
    qed
  qed
next
  assume single: "listDeclarations parent = [varDecl]"
  let ?visit = "\<lambda>keyword. visitVariableDeclarationType b parent varDecl s
           = andThen (visit b ty) (\<lambda>_. returning ()) (s\<lparr>emitted := emitted s @ keyword\<rparr>)"
  consider (deep) "hasFlag (listFlags parent) Const"
        "declarationInitializer varDecl \<noteq> None \<and> isConstCall (declarationInitializer varDecl)"
    | (final) "hasFlag (listFlags parent) Const"
        "\<not> (declarationInitializer varDecl \<noteq> None \<and> isConstCall (declarationInitializer varDecl))"
    | (plain) "\<not> hasFlag (listFlags parent) Const"
    by blast
  then show "\<exists>keyword. visitVariableDeclarationType b parent varDecl s
           = andThen (visit b ty) (\<lambda>_. returning ()) (s\<lparr>emitted := emitted s @ keyword\<rparr>)
         \<and> keyword \<in> {[], [''const''], [''final'']}"
  proof cases
    case deep
    with single assms have "?visit [''const'']"
      by (auto simp add: visitVariableDeclarationType_def Let_def andThen_def emit_apply returning_def)
    then show ?thesis by blast
  next
    case final
    with single assms have "?visit [''final'']"
      by (auto simp add: visitVariableDeclarationType_def Let_def andThen_def emit_apply returning_def)
    then show ?thesis by blast
  next
    case plain
    with single assms have "?visit []"
      by (auto simp add: visitVariableDeclarationType_def Let_def andThen_def returning_def)
    then show ?thesis by blast
  qed
qed

theorem visitVariableDeclarationType_typed_witness:
  "secondTypedDeclarator \<in> set (listDeclarations twoDeclaratorList)
   \<and> 2 \<le> length (listDeclarations twoDeclaratorList)
   \<and> errors (snd (visitVariableDeclarationType exampleBase twoDeclaratorList
         secondTypedDeclarator initialState))
       = [(55, ''Variables in a declaration list of more than one variable cannot by typed'')]
   \<and> listDeclarations singleTypedList = [typedDeclarator]
   \<and> fst (visitVariableDeclarationType exampleBase singleTypedList typedDeclarator initialState)
       = Returns ()
   \<and> errors (snd (visitVariableDeclarationType exampleBase singleTypedList typedDeclarator
         initialState)) = []"
proof -
  let ?number = "Ident \<lparr>identId = 57, identText = ''number''\<rparr>"
  let ?number' = "Ident \<lparr>identId = 52, identText = ''number''\<rparr>"
  have two: "secondTypedDeclarator \<in> set (listDeclarations twoDeclaratorList)
      \<and> 2 \<le> length (listDeclarations twoDeclaratorList)"
    by (simp add: twoDeclaratorList_def)
  have one: "listDeclarations singleTypedList = [typedDeclarator]"
    by (simp add: singleTypedList_def)
  have typed: "declaredType secondTypedDeclarator = Some ?number"
    by (simp add: secondTypedDeclarator_def)
  have typed': "declaredType typedDeclarator = Some ?number'"
    by (simp add: typedDeclarator_def)
  from two visitVariableDeclarationType_typed [OF typed, of twoDeclaratorList exampleBase
      initialState]
  obtain keyword where "visitVariableDeclarationType exampleBase twoDeclaratorList
      secondTypedDeclarator initialState
        = (Returns (),
           initialState\<lparr>emitted := emitted initialState @ keyword,
             errors := errors initialState @ [(declarationId secondTypedDeclarator,
               ''Variables in a declaration list of more than one variable cannot by typed'')]\<rparr>)"
    by blast
  then have reported: "errors (snd (visitVariableDeclarationType exampleBase twoDeclaratorList
         secondTypedDeclarator initialState))
       = [(55, ''Variables in a declaration list of more than one variable cannot by typed'')]"
    by (simp add: initialState_def secondTypedDeclarator_def)
  from one visitVariableDeclarationType_typed [OF typed', of singleTypedList exampleBase
      initialState]
  obtain keyword' where "visitVariableDeclarationType exampleBase singleTypedList
      typedDeclarator initialState
        = andThen (visit exampleBase ?number') (\<lambda>_. returning ())
            (initialState\<lparr>emitted := emitted initialState @ keyword'\<rparr>)"
    by blast
  then have silent: "fst (visitVariableDeclarationType exampleBase singleTypedList
        typedDeclarator initialState) = Returns ()
      \<and> errors (snd (visitVariableDeclarationType exampleBase singleTypedList typedDeclarator
         initialState)) = []"
    by (simp add: exampleVisit_def andThen_def emit_apply returning_def initialState_def)
  from two one reported silent show ?thesis by simp
qed

text \<open>
  C10. For an enum member with an initializer, \<^verbatim>\<open>visitNode\<close> first visits the member's
  name; when that visit returns, the error "enum initializers are not supported" is
  reported at the member and \<^verbatim>\<open>visitNode\<close> returns \<^verbatim>\<open>true\<close>, so the walk over the
  members goes on. (That the spec's list of error kinds has no entry for this error is a
  remark on the spec, not on the code.)
\<close>

theorem enum_initializer_reported:
  assumes "memberInitializer member \<noteq> None"
  shows "visitNode_EnumMember b member s =
     (case visit b (memberName member) s of
        (Returns u, s') \<Rightarrow>
          (Returns True,
           s'\<lparr>errors := errors s' @ [(memberId member, ''enum initializers are not supported'')]\<rparr>)
      | (Throws e, s') \<Rightarrow> (Throws e, s')
      | (Diverges, s') \<Rightarrow> (Diverges, s'))"
  using assms
  by (simp add: visitNode_EnumMember_def andThen_def reportError_def returning_def
      split: prod.splits outcome.splits)

theorem enum_initializer_reported_witness:
  "memberInitializer initialisedMember \<noteq> None
   \<and> visitNode_EnumMember exampleBase initialisedMember initialState
       = (Returns True,
          \<lparr> emitted = [''A''], errors = [(70, ''enum initializers are not supported'')],
            genericMethodDeclDepth = 0, symbolQueries = [] \<rparr>)"
proof -
  have initialised: "memberInitializer initialisedMember \<noteq> None"
    by (simp add: initialisedMember_def)
  show ?thesis
    using initialised enum_initializer_reported [OF initialised, of exampleBase initialState]
    by (simp add: initialisedMember_def exampleVisit_def emit_apply initialState_def)
qed




lemma keepsDepth_throw: "keepsDepth (throw e)"
  by (simp add: keepsDepth_def throw_def)










lemma depthReadingBase_fields [simp]:
  "visit depthReadingBase = depthReadingVisit"
  "visitList depthReadingBase = (\<lambda>ns. seq (map depthReadingVisit ns))"
  by (simp_all add: depthReadingBase_def)




lemma arraySymbol_located:
  "getFileAndName exampleBase checkedConverter n arraySymbol s
     = (Returns (Some \<lparr>fileName = ''lib'', qname = ''Array''\<rparr>), s)"
  by (simp add: getFileAndName_def resolveAliases_def followAliases_no_alias arraySymbol_def
      libDeclaration_def Variable_def libDeclaration_canonical andThen_def returning_def)

lemma es6ArraySymbol_located:
  "getFileAndName exampleBase checkedConverter n es6ArraySymbol s
     = (Returns (Some \<lparr>fileName = ''lib.es6'', qname = ''Array''\<rparr>), s)"
  by (simp add: getFileAndName_def resolveAliases_def followAliases_no_alias es6ArraySymbol_def
      libEs6Declaration_def Variable_def libEs6Declaration_canonical andThen_def returning_def)

text \<open>
  What \<^verbatim>\<open>isNamedType\<close> computes: when the checker gives the node a type with a symbol
  and \<^verbatim>\<open>getFileAndName\<close> locates it, the answer is \<^verbatim>\<open>true\<close> exactly when the expected
  module is the canonical module of the symbol, letter for letter, and the qualified names
  are equal.
\<close>

lemma isNamedType_module_equality:
  assumes "tc fc = Some t"
    and "getTypeAtLocation t n = Some ty"
    and "typeSymbol ty = Some symbol"
    and "getFileAndName b fc (nodeId n) symbol s = (Returns (Some actual), s1)"
  shows "isNamedType b fc n expectedFile expectedName s
     = (Returns (expectedFile = fileName actual \<and> expectedName = qname actual), s1)"
  using assms
  by (auto simp add: isNamedType_def typeAtLocation_def andThen_def returning_def)

text \<open>
  C5 does not hold of the code. \<^verbatim>\<open>isNamedType\<close> is called with the expected module
  \<^verbatim>\<open>lib\<close> (by the rule for \<^verbatim>\<open>Array.concat\<close>). Its first test lets a symbol located in
  \<^verbatim>\<open>lib.es6\<close> pass, and the test of the \<^verbatim>\<open>else\<close> branch then compares the two module
  names for equality: for every node whose type is located in \<^verbatim>\<open>lib.es6\<close> the answer is
  \<^verbatim>\<open>false\<close>, whatever the qualified names are.
\<close>

theorem isNamedType_lib_es6_rejected:
  assumes "tc fc = Some t"
    and "getTypeAtLocation t n = Some ty"
    and "typeSymbol ty = Some symbol"
    and "getFileAndName b fc (nodeId n) symbol s = (Returns (Some actual), s1)"
    and "fileName actual = ''lib.es6''"
  shows "isNamedType b fc n ''lib'' expectedName s = (Returns False, s1)"
  using assms
  by (auto simp add: isNamedType_def typeAtLocation_def andThen_def returning_def)

theorem isNamedType_lib_es6_rejected_witness:
  "getFileAndName exampleBase checkedConverter (nodeId es6ArrayArgument) es6ArraySymbol
         initialState
       = (Returns (Some \<lparr>fileName = ''lib.es6'', qname = ''Array''\<rparr>), initialState)
   \<and> isNamedType exampleBase checkedConverter es6ArrayArgument ''lib'' ''Array'' initialState
       = (Returns False, initialState)"
proof -
  have checker: "tc checkedConverter = Some exampleChecker" by simp
  have es6Array: "getTypeAtLocation exampleChecker es6ArrayArgument
      = Some \<lparr> typeFlags = {}, typeSymbol = Some es6ArraySymbol \<rparr>"
    by (simp add: exampleChecker_def es6ArrayArgument_def)
  have "isNamedType exampleBase checkedConverter es6ArrayArgument ''lib'' ''Array'' initialState
      = (Returns False, initialState)"
    using isNamedType_lib_es6_rejected [where expectedName = "''Array''",
        OF checker es6Array _ es6ArraySymbol_located]
    by simp
  then show ?thesis by (simp add: es6ArraySymbol_located)
qed

text \<open>
  For comparison: a type located in \<^verbatim>\<open>lib\<close> is accepted under the expected module
  \<^verbatim>\<open>lib\<close>, and a type located in \<^verbatim>\<open>lib.es6\<close> under the expected module \<^verbatim>\<open>lib.es6\<close>.
\<close>

lemma isNamedType_same_module_accepted:
  "isNamedType exampleBase checkedConverter arrayArgument ''lib'' ''Array'' initialState
       = (Returns True, initialState)
   \<and> isNamedType exampleBase checkedConverter es6ArrayArgument ''lib.es6'' ''Array'' initialState
       = (Returns True, initialState)"
  by (simp add: arraySymbol_located es6ArraySymbol_located isNamedType_def typeAtLocation_def
      exampleChecker_def arrayArgument_def es6ArrayArgument_def andThen_def returning_def)








end
